theory Spec2Isabelle
  imports Complex_Main
begin

section \<open>Python values and errors\<close>

text \<open>
  The exceptions that the modelled code, or the library calls it makes, can raise.
  A function that can raise returns \<open>error + 'a\<close>, with \<open>Inl\<close> for the exception.
\<close>

datatype error =
  KeyError | TypeError | ValueError | RuntimeError | IndexError | AttributeError

text \<open>
  The dynamically typed values that reach the constructors of \<^verbatim>\<open>torch.optim\<close>:
  a float, or a tuple of values.
\<close>

datatype pyval = PyFloat real | PyTuple "pyval list"

text \<open>Reading a value as a number (a comparison \<^verbatim>\<open>0.0 <= x\<close>); a tuple raises TypeError.\<close>

fun py_number :: "pyval \<Rightarrow> error + real" where
  "py_number (PyFloat x) = Inr x"
| "py_number (PyTuple xs) = Inl TypeError"

text \<open>Subscripting \<^verbatim>\<open>x[i]\<close>: a float is not subscriptable (TypeError).\<close>

fun py_getitem :: "pyval \<Rightarrow> nat \<Rightarrow> error + pyval" where
  "py_getitem (PyFloat x) i = Inl TypeError"
| "py_getitem (PyTuple xs) i = (if i < length xs then Inr (xs ! i) else Inl IndexError)"

text \<open>Truthiness of an optional string (\<^verbatim>\<open>if self.scheduler:\<close>): None and the empty
  string are false, every other string is true.\<close>

fun truthy :: "string option \<Rightarrow> bool" where
  "truthy None = False"
| "truthy (Some s) = (s \<noteq> [])"

section \<open>The optimizers of torch.optim\<close>

text \<open>
  \<^verbatim>\<open>torch.optim\<close> is a library. Its four constructors are modelled by their signatures:
  after \<^verbatim>\<open>params\<close>, the positional parameters are
  \<^item> Adadelta: \<^verbatim>\<open>lr, rho, eps\<close>,
  \<^item> Adam and AdamW: \<^verbatim>\<open>lr, betas, eps\<close>,
  \<^item> SGD: \<^verbatim>\<open>lr, momentum, dampening\<close>,
  and by the validation of these parameters at the start of each constructor.
  An optimizer is the class, the parameters and the hyperparameters bound by name.
\<close>

datatype optim_cls = Adadelta | Adam | AdamW | SGD

record 'p optimizer =
  opt_cls :: optim_cls
  opt_params :: 'p
  opt_defaults :: "(string \<times> pyval) list"

text \<open>Sequencing of calls that can raise: the first exception ends the computation.\<close>

definition bind_e :: "error + 'a \<Rightarrow> ('a \<Rightarrow> error + 'b) \<Rightarrow> error + 'b" where
  "bind_e m f = (case m of Inl e \<Rightarrow> Inl e | Inr x \<Rightarrow> f x)"

definition optim_Adadelta :: "'p \<Rightarrow> pyval \<Rightarrow> pyval \<Rightarrow> pyval \<Rightarrow> error + 'p optimizer" where
  "optim_Adadelta params lr rho eps =
     bind_e (py_number lr) (\<lambda>l.
       if \<not> 0 \<le> l then Inl ValueError else
       bind_e (py_number rho) (\<lambda>r.
         if \<not> (0 \<le> r \<and> r \<le> 1) then Inl ValueError else
         bind_e (py_number eps) (\<lambda>ep.
           if \<not> 0 \<le> ep then Inl ValueError else
           Inr \<lparr>opt_cls = Adadelta, opt_params = params,
                opt_defaults = [(''lr'', lr), (''rho'', rho), (''eps'', eps)]\<rparr>)))"

definition optim_Adam :: "optim_cls \<Rightarrow> 'p \<Rightarrow> pyval \<Rightarrow> pyval \<Rightarrow> pyval \<Rightarrow> error + 'p optimizer" where
  "optim_Adam c params lr betas eps =
     bind_e (py_number lr) (\<lambda>l.
       if \<not> 0 \<le> l then Inl ValueError else
       bind_e (py_number eps) (\<lambda>ep.
         if \<not> 0 \<le> ep then Inl ValueError else
         bind_e (py_getitem betas 0) (\<lambda>b0v.
           bind_e (py_number b0v) (\<lambda>b0.
             if \<not> (0 \<le> b0 \<and> b0 < 1) then Inl ValueError else
             bind_e (py_getitem betas 1) (\<lambda>b1v.
               bind_e (py_number b1v) (\<lambda>b1.
                 if \<not> (0 \<le> b1 \<and> b1 < 1) then Inl ValueError else
                 Inr \<lparr>opt_cls = c, opt_params = params,
                      opt_defaults = [(''lr'', lr), (''betas'', betas), (''eps'', eps)]\<rparr>))))))"

definition optim_SGD :: "'p \<Rightarrow> pyval \<Rightarrow> pyval \<Rightarrow> pyval \<Rightarrow> error + 'p optimizer" where
  "optim_SGD params lr momentum dampening =
     bind_e (py_number lr) (\<lambda>l.
       if l < 0 then Inl ValueError else
       bind_e (py_number momentum) (\<lambda>m.
         if m < 0 then Inl ValueError else
         Inr \<lparr>opt_cls = SGD, opt_params = params,
              opt_defaults =
                [(''lr'', lr), (''momentum'', momentum), (''dampening'', dampening)]\<rparr>))"

text \<open>Calling a class of \<^verbatim>\<open>optim_fac\<close> with four positional arguments.\<close>

fun optim_call :: "optim_cls \<Rightarrow> 'p \<Rightarrow> pyval \<Rightarrow> pyval \<Rightarrow> pyval \<Rightarrow> error + 'p optimizer" where
  "optim_call Adadelta params a b c = optim_Adadelta params a b c"
| "optim_call Adam params a b c = optim_Adam Adam params a b c"
| "optim_call AdamW params a b c = optim_Adam AdamW params a b c"
| "optim_call SGD params a b c = optim_SGD params a b c"

section \<open>OptimizationConfig\<close>

text \<open>
  The dataclass. The scheduler field is declared \<^verbatim>\<open>str\<close> and documented as
  "one of: None, reduceonplateau, warmupinvsqrt", so it is an optional string.
\<close>

record OptimizationConfig =
  optimizer :: string
  learning_rate :: real
  beta1 :: real
  beta2 :: real
  scheduler :: "string option"
  reduceonplateau_factor :: real
  reduceonplateau_patience :: real
  min_learning_rate :: real
  warmup_steps :: int

text \<open>
  The module \<^verbatim>\<open>schedulers\<close> is not part of the modelled sources: its two classes are
  parameters, each a constructor taking the optimizer and the four positional arguments
  that \<^verbatim>\<open>_get_scheduler\<close> passes, and returning a scheduler or raising.
\<close>

type_synonym ('p, 's) scheduler_cls =
  "'p optimizer \<Rightarrow> real \<Rightarrow> real \<Rightarrow> real \<Rightarrow> int \<Rightarrow> error + 's"

record ('p, 's) schedulers =
  ReduceOnPlateau :: "('p, 's) scheduler_cls"
  WarmupInverseSquareRootScheduler :: "('p, 's) scheduler_cls"

definition optim_fac :: "string \<rightharpoonup> optim_cls" where
  "optim_fac = [''adadelta'' \<mapsto> Adadelta, ''adam'' \<mapsto> Adam, ''adamw'' \<mapsto> AdamW, ''sgd'' \<mapsto> SGD]"

definition get_optimizer :: "OptimizationConfig \<Rightarrow> 'p \<Rightarrow> error + 'p optimizer" where
  "get_optimizer self parameters =
     (case optim_fac (optimizer self) of
        None \<Rightarrow> Inl KeyError
      | Some cls \<Rightarrow>
          optim_call cls parameters
            (PyFloat (learning_rate self)) (PyFloat (beta1 self)) (PyFloat (beta2 self)))"

definition scheduler_fac :: "('p, 's) schedulers \<Rightarrow> string \<rightharpoonup> ('p, 's) scheduler_cls" where
  "scheduler_fac schedulers =
     [''reduceonplateau'' \<mapsto> ReduceOnPlateau schedulers,
      ''warmupinvsqrt'' \<mapsto> WarmupInverseSquareRootScheduler schedulers]"

text \<open>A key that is not a string (None) is in no dictionary of strings: KeyError.\<close>

definition get_scheduler ::
  "('p, 's) schedulers \<Rightarrow> OptimizationConfig \<Rightarrow> 'p optimizer \<Rightarrow> error + 's" where
  "get_scheduler schedulers self opt =
     (case scheduler self of
        None \<Rightarrow> Inl KeyError
      | Some name \<Rightarrow>
          (case scheduler_fac schedulers name of
             None \<Rightarrow> Inl KeyError
           | Some cls \<Rightarrow>
               cls opt (reduceonplateau_factor self) (reduceonplateau_patience self)
                 (min_learning_rate self) (warmup_steps self)))"

text \<open>The dictionary that \<^verbatim>\<open>configure\<close> returns: the key "optimizer" is always there,
  the key "lr_scheduler" is optional and holds a dictionary of two keys.\<close>

record 's lr_scheduler_entry =
  entry_scheduler :: 's
  entry_monitor :: string

record ('p, 's) optdict =
  optdict_optimizer :: "'p optimizer"
  optdict_lr_scheduler :: "'s lr_scheduler_entry option"

definition configure ::
  "('p, 's) schedulers \<Rightarrow> OptimizationConfig \<Rightarrow> 'p \<Rightarrow> error + ('p, 's) optdict" where
  "configure schedulers self parameters =
     (case get_optimizer self parameters of
        Inl e \<Rightarrow> Inl e
      | Inr opt \<Rightarrow>
          if truthy (scheduler self) then
            (case get_scheduler schedulers self opt of
               Inl e \<Rightarrow> Inl e
             | Inr s \<Rightarrow>
                 Inr \<lparr>optdict_optimizer = opt,
                      optdict_lr_scheduler =
                        Some \<lparr>entry_scheduler = s, entry_monitor = ''val_loss''\<rparr>\<rparr>)
          else Inr \<lparr>optdict_optimizer = opt, optdict_lr_scheduler = None\<rparr>)"

text \<open>
  A call of the bound method \<^verbatim>\<open>configure\<close> with a list of positional arguments: the
  method has one required parameter, so any other number of arguments is a TypeError.
\<close>

definition call_configure ::
  "('p, 's) schedulers \<Rightarrow> OptimizationConfig \<Rightarrow> 'p list \<Rightarrow> error + ('p, 's) optdict" where
  "call_configure schedulers self args =
     (case args of
        [parameters] \<Rightarrow> configure schedulers self parameters
      | _ \<Rightarrow> Inl TypeError)"

section \<open>Tensors\<close>

text \<open>
  A floating-point value is a real number or NaN (what \<^verbatim>\<open>torch.mean\<close> gives for an empty
  slice). Rounding and the infinities are outside this model.
\<close>

datatype fp = Fin real | NaN

fun fp_add :: "fp \<Rightarrow> fp \<Rightarrow> fp" where
  "fp_add (Fin a) (Fin b) = Fin (a + b)"
| "fp_add _ _ = NaN"

fun fp_mul :: "fp \<Rightarrow> fp \<Rightarrow> fp" where
  "fp_mul (Fin a) (Fin b) = Fin (a * b)"
| "fp_mul _ _ = NaN"

text \<open>Division by a count; a sum of no element divided by zero is NaN.\<close>

fun fp_div :: "fp \<Rightarrow> nat \<Rightarrow> fp" where
  "fp_div (Fin a) n = (if n = 0 then NaN else Fin (a / real n))"
| "fp_div NaN n = NaN"

definition fp_sum :: "fp list \<Rightarrow> fp" where
  "fp_sum xs = foldl fp_add (Fin 0) xs"

text \<open>
  A tensor carries its shape. A one-dimensional tensor is the list of its values; a
  two-dimensional one is its rows and the size of the second axis (the number of rows is
  the length of the list); a three-dimensional one is its matrices and the sizes of the
  second and third axes.
\<close>

record tensor2 =
  t2_cols :: nat
  t2_rows :: "fp list list"

record tensor3 =
  t3_dim1 :: nat
  t3_dim2 :: nat
  t3_items :: "fp list list list"

definition wf2 :: "tensor2 \<Rightarrow> bool" where
  "wf2 t = list_all (\<lambda>r. length r = t2_cols t) (t2_rows t)"

definition wf3 :: "tensor3 \<Rightarrow> bool" where
  "wf3 t =
     list_all (\<lambda>m. length m = t3_dim1 t \<and> list_all (\<lambda>r. length r = t3_dim2 t) m) (t3_items t)"

definition shape3 :: "tensor3 \<Rightarrow> nat \<times> nat \<times> nat" where
  "shape3 t = (length (t3_items t), t3_dim1 t, t3_dim2 t)"

text \<open>Iterating over a three-dimensional tensor yields its matrices.\<close>

definition unbind3 :: "tensor3 \<Rightarrow> tensor2 list" where
  "unbind3 t = map (\<lambda>m. \<lparr>t2_cols = t3_dim2 t, t2_rows = m\<rparr>) (t3_items t)"

text \<open>\<^verbatim>\<open>t[start:end]\<close> with two indices that are not negative: the rows from start up to,
  not including, end; no row when start is not below end.\<close>

definition slice2 :: "tensor2 \<Rightarrow> nat \<Rightarrow> nat \<Rightarrow> tensor2" where
  "slice2 t start end = t\<lparr>t2_rows := drop start (take end (t2_rows t))\<rparr>"

text \<open>\<^verbatim>\<open>torch.mean(t, dim=0)\<close>: for each column, the sum of its values divided by the number of
  rows.\<close>

definition torch_mean_dim0 :: "tensor2 \<Rightarrow> fp list" where
  "torch_mean_dim0 t =
     map (\<lambda>j. fp_div (fp_sum (map (\<lambda>r. r ! j) (t2_rows t))) (length (t2_rows t)))
       [0..<t2_cols t]"

text \<open>\<^verbatim>\<open>torch.stack\<close> raises RuntimeError on an empty list and on tensors of different
  shapes.\<close>

definition torch_stack1 :: "fp list list \<Rightarrow> error + tensor2" where
  "torch_stack1 ts =
     (case ts of
        [] \<Rightarrow> Inl RuntimeError
      | t # rest \<Rightarrow>
          if list_all (\<lambda>u. length u = length t) rest
          then Inr \<lparr>t2_cols = length t, t2_rows = ts\<rparr>
          else Inl RuntimeError)"

definition torch_stack2 :: "tensor2 list \<Rightarrow> error + tensor3" where
  "torch_stack2 ts =
     (case ts of
        [] \<Rightarrow> Inl RuntimeError
      | t # rest \<Rightarrow>
          if list_all (\<lambda>u. length (t2_rows u) = length (t2_rows t) \<and> t2_cols u = t2_cols t) rest
          then Inr \<lparr>t3_dim1 = length (t2_rows t), t3_dim2 = t2_cols t,
                    t3_items = map t2_rows ts\<rparr>
          else Inl RuntimeError)"

text \<open>The attribute \<^verbatim>\<open>.T\<close> of a matrix.\<close>

definition tensor2_T :: "tensor2 \<Rightarrow> tensor2" where
  "tensor2_T t =
     \<lparr>t2_cols = length (t2_rows t),
      t2_rows = map (\<lambda>j. map (\<lambda>r. r ! j) (t2_rows t)) [0..<t2_cols t]\<rparr>"

text \<open>\<^verbatim>\<open>nn.functional.pad(t, (0, k), value=0)\<close>: k zeros after the last axis of each row. The
  count k is a difference that is never negative where the code calls it.\<close>

definition pad :: "tensor2 \<Rightarrow> nat \<Rightarrow> tensor2" where
  "pad t k = \<lparr>t2_cols = t2_cols t + k, t2_rows = map (\<lambda>r. r @ replicate k (Fin 0)) (t2_rows t)\<rparr>"

text \<open>\<^verbatim>\<open>t.permute(0, 2, 1)\<close>: the last two axes exchanged.\<close>

definition permute_021 :: "tensor3 \<Rightarrow> tensor3" where
  "permute_021 t =
     \<lparr>t3_dim1 = t3_dim2 t, t3_dim2 = t3_dim1 t,
      t3_items = map (\<lambda>m. map (\<lambda>j. map (\<lambda>r. r ! j) m) [0..<t3_dim2 t]) (t3_items t)\<rparr>"

text \<open>The builtin \<^verbatim>\<open>max\<close> of an iterable raises ValueError when it is empty.\<close>

definition py_max :: "nat list \<Rightarrow> error + nat" where
  "py_max xs = (case xs of [] \<Rightarrow> Inl ValueError | x # rest \<Rightarrow> Inr (fold max rest x))"

section \<open>The tokenized batch\<close>

text \<open>
  An encoding of the tokenizers library, as far as the code reads it: the attribute
  \<^verbatim>\<open>word_ids\<close> (for each subword position the index of its word, or None) and the method
  \<^verbatim>\<open>word_to_tokens\<close> (for a word index, its span of subword positions as a pair, or
  None). The method is a field of the record: what it returns is the library's business.
\<close>

record encoding =
  word_ids :: "nat option list"
  word_to_tokens :: "nat \<Rightarrow> (nat \<times> nat) option"

record int_tensor2 =
  it_cols :: nat
  it_rows :: "int list list"

record batch_encoding =
  input_ids :: int_tensor2
  attention_mask :: int_tensor2
  encodings :: "encoding list"

section \<open>UDTubeEncoder\<close>

text \<open>
  The while loop of \<^verbatim>\<open>_group_embeddings\<close>, from position i with the spans collected so
  far. Subscripting the pair when \<^verbatim>\<open>word_to_tokens\<close> returned None raises TypeError.
  The next position is whatever end \<^verbatim>\<open>word_to_tokens\<close> returned, which nothing in the loop
  compares with the current one, so the loop is a partial function: None is a run that
  never ends.
\<close>

partial_function (option) scan_words ::
  "encoding \<Rightarrow> nat \<Rightarrow> (nat \<times> nat) list \<Rightarrow> (error + (nat \<times> nat) list) option" where
  "scan_words sentence_encodings i indices =
     (if i < length (word_ids sentence_encodings) then
        (case word_ids sentence_encodings ! i of
           None \<Rightarrow> Some (Inr indices)
         | Some word_id \<Rightarrow>
             (case word_to_tokens sentence_encodings word_id of
                None \<Rightarrow> Some (Inl TypeError)
              | Some pair \<Rightarrow> scan_words sentence_encodings (snd pair) (indices @ [pair])))
      else Some (Inr indices))"

text \<open>One sentence: the spans, then the stack of the means over each span.\<close>

definition sentence_embedding :: "encoding \<Rightarrow> tensor2 \<Rightarrow> (error + tensor2) option" where
  "sentence_embedding sentence_encodings sentence_embeddings =
     (case scan_words sentence_encodings 0 [] of
        None \<Rightarrow> None
      | Some r \<Rightarrow>
          Some (bind_e r (\<lambda>indices.
            torch_stack1
              (map (\<lambda>(start, end). torch_mean_dim0 (slice2 sentence_embeddings start end))
                 indices))))"

text \<open>The for loop over the zipped sentences, which the first exception leaves.\<close>

fun new_sentence_embeddings :: "(encoding \<times> tensor2) list \<Rightarrow> (error + tensor2 list) option" where
  "new_sentence_embeddings [] = Some (Inr [])"
| "new_sentence_embeddings ((enc, emb) # rest) =
     (case sentence_embedding enc emb of
        None \<Rightarrow> None
      | Some (Inl e) \<Rightarrow> Some (Inl e)
      | Some (Inr s) \<Rightarrow>
          (case new_sentence_embeddings rest of
             None \<Rightarrow> None
           | Some (Inl e) \<Rightarrow> Some (Inl e)
           | Some (Inr ss) \<Rightarrow> Some (Inr (s # ss))))"

text \<open>Padding and stacking across sentences.\<close>

definition pad_and_stack :: "tensor2 list \<Rightarrow> error + tensor3" where
  "pad_and_stack new =
     bind_e (py_max (map (\<lambda>s. length (t2_rows s)) new)) (\<lambda>pad_max.
       bind_e
         (torch_stack2 (map (\<lambda>s. pad (tensor2_T s) (pad_max - length (t2_rows s))) new))
         (\<lambda>stacked. Inr (permute_021 stacked)))"

definition group_embeddings :: "tensor3 \<Rightarrow> batch_encoding \<Rightarrow> (error + tensor3) option" where
  "group_embeddings embeddings tokenized =
     (case new_sentence_embeddings (zip (encodings tokenized) (unbind3 embeddings)) of
        None \<Rightarrow> None
      | Some r \<Rightarrow> Some (bind_e r pad_and_stack))"

text \<open>\<^verbatim>\<open>xs[:m]\<close> on the first axis, for any integer m: a negative m counts from the end.\<close>

definition slice_to :: "int \<Rightarrow> 'a list \<Rightarrow> 'a list" where
  "slice_to m xs = (if m < 0 then take (nat (int (length xs) + m)) xs else take (nat m) xs)"

definition slice_rows :: "int \<Rightarrow> int_tensor2 \<Rightarrow> int_tensor2" where
  "slice_rows m t = t\<lparr>it_rows := slice_to m (it_rows t)\<rparr>"

text \<open>The module, as far as the modelled methods read it: the maximum position count of
  its encoder's configuration, and the optimization configuration.\<close>

record UDTubeEncoder =
  max_position_embeddings :: int
  encoder_optconf :: OptimizationConfig

text \<open>A line of the log: the warning of \<^verbatim>\<open>forward\<close> with its two numbers.\<close>

datatype log_line = Warning_truncating nat int

text \<open>
  The attribute \<^verbatim>\<open>device\<close> that \<^verbatim>\<open>forward\<close> reads on the module. The class defines no
  attribute of that name and assigns none, and \<^verbatim>\<open>nn.Module\<close> resolves a name it does not
  know by raising AttributeError.
\<close>

definition UDTubeEncoder_device :: "error + string" where
  "UDTubeEncoder_device = Inl AttributeError"

text \<open>\<^verbatim>\<open>tensor.to(device)\<close> moves a tensor and leaves its values as they are.\<close>

definition to_device :: "string \<Rightarrow> int_tensor2 \<Rightarrow> int_tensor2" where
  "to_device device t = t"

text \<open>
  The start of \<^verbatim>\<open>forward\<close>, up to the call of the encoder: the length check, the warning,
  the two slices stored back into the batch, the arguments of the call, which read
  \<^verbatim>\<open>self.device\<close>, and the call. The encoder is a parameter; its result is what
  \<^verbatim>\<open>forward\<close> pools afterwards. The result is the log, the batch as \<^verbatim>\<open>forward\<close> leaves
  it, and what the encoder returned for the arguments it was given, or the exception
  raised before it was called. The pooling of the layers and the dropout that come next
  in \<^verbatim>\<open>forward\<close> are numeric and are not modelled; \<^verbatim>\<open>_group_embeddings\<close>, which ends it,
  is modelled above.
\<close>

definition forward_truncate ::
  "UDTubeEncoder \<Rightarrow> batch_encoding \<Rightarrow> log_line list \<times> batch_encoding" where
  "forward_truncate self tokens =
     (let actual_length = it_cols (input_ids tokens);
          max_length = max_position_embeddings self in
      if int actual_length > max_length then
        ([Warning_truncating actual_length max_length],
         tokens\<lparr>input_ids := slice_rows max_length (input_ids tokens),
                attention_mask := slice_rows max_length (attention_mask tokens)\<rparr>)
      else ([], tokens))"

definition forward_encoder_call ::
  "(int_tensor2 \<Rightarrow> int_tensor2 \<Rightarrow> 'h) \<Rightarrow> UDTubeEncoder \<Rightarrow> batch_encoding
     \<Rightarrow> log_line list \<times> batch_encoding \<times> (error + 'h)" where
  "forward_encoder_call encoder self tokens =
     (let (log, tokens') = forward_truncate self tokens in
      (log, tokens',
       bind_e UDTubeEncoder_device (\<lambda>device.
         Inr (encoder (to_device device (input_ids tokens'))
                (to_device device (attention_mask tokens'))))))"

text \<open>What the claimed truncation would hand to the encoder: every row cut to its first
  positions. It is written from the comment and the warning of \<^verbatim>\<open>forward\<close>, for
  comparison with what the code does.\<close>

definition truncate_columns :: "int \<Rightarrow> int_tensor2 \<Rightarrow> int_tensor2" where
  "truncate_columns m t =
     \<lparr>it_cols = min (it_cols t) (nat m), it_rows = map (take (nat m)) (it_rows t)\<rparr>"

text \<open>The required method: it calls \<^verbatim>\<open>configure\<close> with no argument.\<close>

definition UDTubeEncoder_configure_optimizers ::
  "('p, 's) schedulers \<Rightarrow> UDTubeEncoder \<Rightarrow> error + ('p, 's) optdict" where
  "UDTubeEncoder_configure_optimizers schedulers self =
     call_configure schedulers (encoder_optconf self) []"

section \<open>UDTubeClassifier\<close>

text \<open>
  A head is \<^verbatim>\<open>nn.Sequential(nn.Linear(hidden_size, out_size), nn.LeakyReLU())\<close>. The
  linear layer holds a weight matrix (out by in) and a bias; the rectifier has no
  parameter (its slope for negative inputs is 0.01).
\<close>

record linear =
  in_features :: nat
  out_features :: nat
  weight :: "nat \<Rightarrow> nat \<Rightarrow> fp"
  bias :: "nat \<Rightarrow> fp"

definition linear_row :: "linear \<Rightarrow> fp list \<Rightarrow> fp list" where
  "linear_row l x =
     map (\<lambda>c. fp_add (fp_sum (map (\<lambda>h. fp_mul (x ! h) (weight l c h)) [0..<in_features l]))
                 (bias l c))
       [0..<out_features l]"

text \<open>The linear layer works on the last axis and raises RuntimeError when its size is not
  the layer's input size.\<close>

definition Linear_forward :: "linear \<Rightarrow> tensor3 \<Rightarrow> error + tensor3" where
  "Linear_forward l x =
     (if t3_dim2 x \<noteq> in_features l then Inl RuntimeError
      else Inr \<lparr>t3_dim1 = t3_dim1 x, t3_dim2 = out_features l,
                t3_items = map (map (linear_row l)) (t3_items x)\<rparr>)"

fun leaky_relu :: "fp \<Rightarrow> fp" where
  "leaky_relu (Fin a) = Fin (if 0 \<le> a then a else a / 100)"
| "leaky_relu NaN = NaN"

definition LeakyReLU_forward :: "tensor3 \<Rightarrow> tensor3" where
  "LeakyReLU_forward x = x\<lparr>t3_items := map (map (map leaky_relu)) (t3_items x)\<rparr>"

definition head_forward :: "linear \<Rightarrow> tensor3 \<Rightarrow> error + tensor3" where
  "head_forward head x = bind_e (Linear_forward head x) (\<lambda>y. Inr (LeakyReLU_forward y))"

text \<open>
  The attribute \<^verbatim>\<open>hidden_size\<close> that \<^verbatim>\<open>_make_head\<close> reads on the classifier. The class
  defines no attribute of that name (the property \<^verbatim>\<open>hidden_size\<close> belongs to
  \<^verbatim>\<open>UDTubeEncoder\<close>) and the constructor assigns none, and \<^verbatim>\<open>nn.Module\<close> resolves a name
  it does not know by raising AttributeError.
\<close>

definition UDTubeClassifier_hidden_size :: "error + nat" where
  "UDTubeClassifier_hidden_size = Inl AttributeError"

text \<open>\<^verbatim>\<open>nn.Linear(in_features, out_features)\<close>; the initial values of the weights and the
  bias, which the library draws at random, are parameters.\<close>

definition nn_Linear :: "nat \<Rightarrow> nat \<Rightarrow> (nat \<Rightarrow> nat \<Rightarrow> fp) \<Rightarrow> (nat \<Rightarrow> fp) \<Rightarrow> linear" where
  "nn_Linear n_in n_out w b =
     \<lparr>in_features = n_in, out_features = n_out, weight = w, bias = b\<rparr>"

text \<open>\<^verbatim>\<open>_make_head\<close>: the hidden size is read first, then the layers are built.\<close>

definition make_head :: "(nat \<Rightarrow> nat \<Rightarrow> fp) \<Rightarrow> (nat \<Rightarrow> fp) \<Rightarrow> nat \<Rightarrow> error + linear" where
  "make_head w b out_size =
     bind_e UDTubeClassifier_hidden_size (\<lambda>hidden_size.
       Inr (nn_Linear hidden_size out_size w b))"

record UDTubeClassifier =
  upos_head :: "linear option"
  xpos_head :: "linear option"
  lemma_head :: "linear option"
  feats_head :: "linear option"
  classifier_optconf :: OptimizationConfig

text \<open>The arguments of the constructor for one task: the flag, the number of classes, and
  the initial values of its layer.\<close>

record head_args =
  use :: bool
  out_size :: nat
  init_weight :: "nat \<Rightarrow> nat \<Rightarrow> fp"
  init_bias :: "nat \<Rightarrow> fp"

text \<open>\<^verbatim>\<open>self._make_head(out_size) if use else None\<close>.\<close>

definition init_head :: "head_args \<Rightarrow> error + linear option" where
  "init_head a =
     (if use a then
        bind_e (make_head (init_weight a) (init_bias a) (out_size a)) (\<lambda>h. Inr (Some h))
      else Inr None)"

text \<open>The constructor: the four heads in the order upos, xpos, lemma, feats, then the
  optimization configuration. The first exception leaves it.\<close>

definition UDTubeClassifier_init ::
  "head_args \<Rightarrow> head_args \<Rightarrow> head_args \<Rightarrow> head_args \<Rightarrow> OptimizationConfig
     \<Rightarrow> error + UDTubeClassifier" where
  "UDTubeClassifier_init upos_args xpos_args lemma_args feats_args optconf =
     bind_e (init_head upos_args) (\<lambda>u.
       bind_e (init_head xpos_args) (\<lambda>x.
         bind_e (init_head lemma_args) (\<lambda>l.
           bind_e (init_head feats_args) (\<lambda>f.
             Inr \<lparr>upos_head = u, xpos_head = x, lemma_head = l, feats_head = f,
                  classifier_optconf = optconf\<rparr>))))"

definition use_upos :: "UDTubeClassifier \<Rightarrow> bool" where
  "use_upos self = (upos_head self \<noteq> None)"

definition use_xpos :: "UDTubeClassifier \<Rightarrow> bool" where
  "use_xpos self = (xpos_head self \<noteq> None)"

definition use_lemma :: "UDTubeClassifier \<Rightarrow> bool" where
  "use_lemma self = (lemma_head self \<noteq> None)"

definition use_feats :: "UDTubeClassifier \<Rightarrow> bool" where
  "use_feats self = (feats_head self \<noteq> None)"

record Logits =
  logits_upos :: "tensor3 option"
  logits_xpos :: "tensor3 option"
  logits_lemma :: "tensor3 option"
  logits_feats :: "tensor3 option"

text \<open>One argument of the \<^verbatim>\<open>Logits\<close> call: the head applied and permuted when the task
  is in use, None otherwise. Calling a head that is None raises TypeError; the guard
  makes that branch unreachable.\<close>

definition head_logits :: "bool \<Rightarrow> linear option \<Rightarrow> tensor3 \<Rightarrow> error + tensor3 option" where
  "head_logits used head embeddings =
     (if used then
        (case head of
           None \<Rightarrow> Inl TypeError
         | Some h \<Rightarrow> bind_e (head_forward h embeddings) (\<lambda>y. Inr (Some (permute_021 y))))
      else Inr None)"

definition UDTubeClassifier_forward :: "UDTubeClassifier \<Rightarrow> tensor3 \<Rightarrow> error + Logits" where
  "UDTubeClassifier_forward self embeddings =
     bind_e (head_logits (use_upos self) (upos_head self) embeddings) (\<lambda>u.
       bind_e (head_logits (use_xpos self) (xpos_head self) embeddings) (\<lambda>x.
         bind_e (head_logits (use_lemma self) (lemma_head self) embeddings) (\<lambda>l.
           bind_e (head_logits (use_feats self) (feats_head self) embeddings) (\<lambda>f.
             Inr \<lparr>logits_upos = u, logits_xpos = x, logits_lemma = l, logits_feats = f\<rparr>))))"

definition UDTubeClassifier_configure_optimizers ::
  "('p, 's) schedulers \<Rightarrow> UDTubeClassifier \<Rightarrow> error + ('p, 's) optdict" where
  "UDTubeClassifier_configure_optimizers schedulers self =
     call_configure schedulers (classifier_optconf self) []"

section \<open>The tokenizer's contract\<close>

text \<open>
  What the tokenization stage guarantees about a sentence, as the data model has it
  (word ids are contiguous, do not decrease and start at 0; padding follows the words):
  the sentence has the words 0, 1, ... in this order, word k occupies the span
  \<open>sp ! k\<close> of subword positions, which is not empty, starts where the span before it
  ends (the first one at 0) and holds the word id k at each of its positions;
  \<^verbatim>\<open>word_to_tokens\<close> returns that span for k; and after the last span the sentence ends
  or the padding starts.
\<close>

definition span_start :: "(nat \<times> nat) list \<Rightarrow> nat \<Rightarrow> nat" where
  "span_start sp k = (if k = 0 then 0 else snd (sp ! (k - 1)))"

definition sentence_spans :: "encoding \<Rightarrow> (nat \<times> nat) list \<Rightarrow> bool" where
  "sentence_spans enc sp =
     (list_all
        (\<lambda>k. word_to_tokens enc k = Some (sp ! k) \<and>
             fst (sp ! k) = span_start sp k \<and>
             fst (sp ! k) < snd (sp ! k) \<and>
             snd (sp ! k) \<le> length (word_ids enc) \<and>
             list_all (\<lambda>i. word_ids enc ! i = Some k) [fst (sp ! k)..<snd (sp ! k)])
        [0..<length sp]
      \<and> (if span_start sp (length sp) < length (word_ids enc)
         then word_ids enc ! span_start sp (length sp) = None
         else True))"

section \<open>Concrete inputs\<close>

text \<open>A configuration with the optimizer "sgd" and no scheduler, and a module of
  schedulers whose constructors always return.\<close>

definition example_config :: OptimizationConfig where
  "example_config =
     \<lparr>optimizer = ''sgd'', learning_rate = 1 / 1000, beta1 = 9 / 10, beta2 = 999 / 1000,
      scheduler = None, reduceonplateau_factor = 1 / 10, reduceonplateau_patience = 10,
      min_learning_rate = 0, warmup_steps = 0\<rparr>"

definition example_schedulers :: "(unit, string) schedulers" where
  "example_schedulers =
     \<lparr>ReduceOnPlateau = (\<lambda>opt f p m w. Inr ''plateau''),
      WarmupInverseSquareRootScheduler = (\<lambda>opt f p m w. Inr ''warmup'')\<rparr>"

definition example_sgd :: "unit optimizer" where
  "example_sgd =
     \<lparr>opt_cls = SGD, opt_params = (),
      opt_defaults =
        [(''lr'', PyFloat (1 / 1000)), (''momentum'', PyFloat (9 / 10)),
         (''dampening'', PyFloat (999 / 1000))]\<rparr>"

text \<open>An encoder module whose encoder supports two positions, a batch of one sentence of
  three subwords, and a batch of three such sentences.\<close>

definition example_encoder :: UDTubeEncoder where
  "example_encoder = \<lparr>max_position_embeddings = 2, encoder_optconf = example_config\<rparr>"

definition example_tokens :: batch_encoding where
  "example_tokens =
     \<lparr>input_ids = \<lparr>it_cols = 3, it_rows = [[5, 6, 7]]\<rparr>,
      attention_mask = \<lparr>it_cols = 3, it_rows = [[1, 1, 1]]\<rparr>,
      encodings = []\<rparr>"

definition example_tokens3 :: batch_encoding where
  "example_tokens3 =
     \<lparr>input_ids = \<lparr>it_cols = 3, it_rows = [[5, 6, 7], [8, 9, 10], [11, 12, 13]]\<rparr>,
      attention_mask = \<lparr>it_cols = 3, it_rows = [[1, 1, 1], [1, 1, 1], [1, 1, 1]]\<rparr>,
      encodings = []\<rparr>"

text \<open>Constructor arguments for an enabled task with 3 classes and for a disabled task,
  and word embeddings for one sentence of two words with hidden size 2.\<close>

definition example_head_on :: head_args where
  "example_head_on =
     \<lparr>use = True, out_size = 3, init_weight = (\<lambda>c h. Fin (real c - real h)),
      init_bias = (\<lambda>c. Fin 0)\<rparr>"

definition example_head_off :: head_args where
  "example_head_off =
     \<lparr>use = False, out_size = 2, init_weight = (\<lambda>c h. Fin 0), init_bias = (\<lambda>c. Fin 0)\<rparr>"

definition example_word_embeddings :: tensor3 where
  "example_word_embeddings =
     \<lparr>t3_dim1 = 2, t3_dim2 = 2, t3_items = [[[Fin 1, Fin 2], [Fin 3, Fin 4]]]\<rparr>"

text \<open>
  Two sentences of six subword positions and hidden size 2: one of three words (the second
  word has two subwords) followed by two positions of padding, one of five words (the
  third word has two subwords); a sentence that is all padding; and subword embeddings
  for a batch of two sentences.
\<close>

definition example_sentence3 :: encoding where
  "example_sentence3 =
     \<lparr>word_ids = [Some 0, Some 1, Some 1, Some 2, None, None],
      word_to_tokens =
        (\<lambda>w. if w = 0 then Some (0, 1) else if w = 1 then Some (1, 3)
              else if w = 2 then Some (3, 4) else None)\<rparr>"

definition example_sentence5 :: encoding where
  "example_sentence5 =
     \<lparr>word_ids = [Some 0, Some 1, Some 2, Some 2, Some 3, Some 4],
      word_to_tokens =
        (\<lambda>w. if w = 0 then Some (0, 1) else if w = 1 then Some (1, 2)
              else if w = 2 then Some (2, 4) else if w = 3 then Some (4, 5)
              else if w = 4 then Some (5, 6) else None)\<rparr>"

definition example_padding_only :: encoding where
  "example_padding_only =
     \<lparr>word_ids = [None, None, None, None, None, None], word_to_tokens = (\<lambda>w. None)\<rparr>"

definition example_rows3 :: "fp list list" where
  "example_rows3 =
     [[Fin 1, Fin 0], [Fin 2, Fin 2], [Fin 4, Fin 6], [Fin 5, Fin 1], [Fin 0, Fin 0],
      [Fin 0, Fin 0]]"

definition example_rows5 :: "fp list list" where
  "example_rows5 =
     [[Fin 1, Fin 1], [Fin 2, Fin 2], [Fin 3, Fin 3], [Fin 5, Fin 7], [Fin 8, Fin 8],
      [Fin 9, Fin 9]]"

definition example_embeddings :: tensor3 where
  "example_embeddings = \<lparr>t3_dim1 = 6, t3_dim2 = 2, t3_items = [example_rows3, example_rows5]\<rparr>"

definition example_batch :: batch_encoding where
  "example_batch =
     \<lparr>input_ids = \<lparr>it_cols = 6, it_rows = [[11, 12, 13, 14, 0, 0], [21, 22, 23, 24, 25, 26]]\<rparr>,
      attention_mask = \<lparr>it_cols = 6, it_rows = [[1, 1, 1, 1, 0, 0], [1, 1, 1, 1, 1, 1]]\<rparr>,
      encodings = [example_sentence3, example_sentence5]\<rparr>"

section \<open>The optimization configurator\<close>

lemma get_optimizer_example:
  "get_optimizer (example_config\<lparr>scheduler := s\<rparr>) () = Inr example_sgd"
  by (simp add: example_config_def example_sgd_def get_optimizer_def optim_fac_def
      optim_SGD_def bind_e_def)

text \<open>
  C5. The claim is that the name "adam" gives an Adam optimizer whose learning rate is the
  configured one and whose betas are the configured pair. The code passes the learning
  rate, beta1 and beta2 as three positional arguments, so that the parameter
  \<^verbatim>\<open>betas\<close> of Adam receives the float beta1 and \<^verbatim>\<open>eps\<close> receives beta2; the
  constructor then subscripts a float. For every configuration and every parameters,
  the call raises: TypeError when the learning rate and beta2 are not negative,
  ValueError otherwise. No optimizer is returned.
\<close>

theorem get_optimizer_adam_raises:
  "get_optimizer (self\<lparr>optimizer := ''adam''\<rparr>) parameters =
     optim_Adam Adam parameters
       (PyFloat (learning_rate self)) (PyFloat (beta1 self)) (PyFloat (beta2 self))
   \<and> get_optimizer (self\<lparr>optimizer := ''adam''\<rparr>) parameters =
     Inl (if 0 \<le> learning_rate self \<and> 0 \<le> beta2 self then TypeError else ValueError)"
  by (simp add: get_optimizer_def optim_fac_def optim_Adam_def bind_e_def)

text \<open>
  C6, as stated, fails: the string "none" is not an empty value. It is true in the test
  of \<^verbatim>\<open>configure\<close>, it is looked up among the two scheduler names, and the lookup raises
  KeyError, here with an optimizer that is constructed without error.
\<close>

theorem configure_scheduler_none_string_counterexample:
  "configure example_schedulers (example_config\<lparr>scheduler := Some ''none''\<rparr>) () = Inl KeyError
   \<and> \<not> (\<exists>b. configure example_schedulers (example_config\<lparr>scheduler := Some ''none''\<rparr>) ()
             = Inr b)"
  by (simp add: configure_def get_optimizer_example get_scheduler_def scheduler_fac_def)

text \<open>
  C6, amended. For every configuration whose optimizer is constructed: when the scheduler
  field is empty (None or the empty string), \<^verbatim>\<open>configure\<close> returns the optimizer and no
  lr_scheduler entry; the string "none" raises KeyError; when the field is a recognized
  name and the constructor of that scheduler returns, the bundle holds the optimizer and
  an lr_scheduler entry with that scheduler and the monitor "val_loss". Whenever a
  bundle with an lr_scheduler entry is returned, its monitor is "val_loss" and the
  scheduler field was not empty.
\<close>

theorem configure_scheduler_entry:
  assumes "get_optimizer self parameters = Inr opt"
  shows "(\<not> truthy (scheduler self) \<longrightarrow>
            configure S self parameters =
              Inr \<lparr>optdict_optimizer = opt, optdict_lr_scheduler = None\<rparr>)
       \<and> (scheduler self = Some ''none'' \<longrightarrow> configure S self parameters = Inl KeyError)
       \<and> (\<forall>name cls s.
             scheduler self = Some name \<and> scheduler_fac S name = Some cls \<and>
             cls opt (reduceonplateau_factor self) (reduceonplateau_patience self)
               (min_learning_rate self) (warmup_steps self) = Inr s \<longrightarrow>
             configure S self parameters =
               Inr \<lparr>optdict_optimizer = opt,
                    optdict_lr_scheduler =
                      Some \<lparr>entry_scheduler = s, entry_monitor = ''val_loss''\<rparr>\<rparr>)
       \<and> (\<forall>b e. configure S self parameters = Inr b \<and> optdict_lr_scheduler b = Some e \<longrightarrow>
             entry_monitor e = ''val_loss'' \<and> truthy (scheduler self))"
  using assms
  by (auto simp: configure_def get_scheduler_def scheduler_fac_def
      split: sum.splits option.splits if_splits)

theorem configure_scheduler_entry_witness:
  "configure example_schedulers (example_config\<lparr>scheduler := None\<rparr>) () =
     Inr \<lparr>optdict_optimizer = example_sgd, optdict_lr_scheduler = None\<rparr>
   \<and> configure example_schedulers (example_config\<lparr>scheduler := Some []\<rparr>) () =
     Inr \<lparr>optdict_optimizer = example_sgd, optdict_lr_scheduler = None\<rparr>
   \<and> configure example_schedulers (example_config\<lparr>scheduler := Some ''reduceonplateau''\<rparr>) () =
     Inr \<lparr>optdict_optimizer = example_sgd,
          optdict_lr_scheduler =
            Some \<lparr>entry_scheduler = ''plateau'', entry_monitor = ''val_loss''\<rparr>\<rparr>"
proof -
  note a = configure_scheduler_entry [OF get_optimizer_example, of None example_schedulers]
  note b = configure_scheduler_entry [OF get_optimizer_example, of "Some []" example_schedulers]
  note c = configure_scheduler_entry
    [OF get_optimizer_example, of "Some ''reduceonplateau''" example_schedulers]
  have "scheduler_fac example_schedulers ''reduceonplateau'' =
          Some (ReduceOnPlateau example_schedulers)"
    by (simp add: scheduler_fac_def)
  moreover have "ReduceOnPlateau example_schedulers example_sgd x1 x2 x3 x4 = Inr ''plateau''"
    for x1 x2 x3 x4
    by (simp add: example_schedulers_def)
  ultimately show ?thesis
    using a b c by simp
qed

text \<open>
  C7. When the optimizer name is outside adadelta, adam, adamw, sgd, or the scheduler
  field is not empty and outside reduceonplateau, warmupinvsqrt, \<^verbatim>\<open>configure\<close> raises:
  it returns no bundle, whatever the parameters and the scheduler classes are.
\<close>

theorem configure_unrecognized_name_raises:
  assumes "optimizer self \<notin> {''adadelta'', ''adam'', ''adamw'', ''sgd''} \<or>
           (truthy (scheduler self) \<and>
            scheduler self \<notin> {Some ''reduceonplateau'', Some ''warmupinvsqrt''})"
  shows "\<exists>e. configure S self parameters = Inl e"
  using assms
  by (auto simp: configure_def get_optimizer_def optim_fac_def get_scheduler_def
      scheduler_fac_def split: sum.splits option.splits)

theorem configure_unrecognized_name_raises_witness:
  "(\<exists>e. configure example_schedulers (example_config\<lparr>optimizer := ''rmsprop''\<rparr>) () = Inl e)
   \<and> (\<exists>e. configure example_schedulers (example_config\<lparr>scheduler := Some ''cosine''\<rparr>) ()
            = Inl e)"
proof -
  have a: "optimizer (example_config\<lparr>optimizer := ''rmsprop''\<rparr>)
             \<notin> {''adadelta'', ''adam'', ''adamw'', ''sgd''}"
    by simp
  have b: "truthy (scheduler (example_config\<lparr>scheduler := Some ''cosine''\<rparr>)) \<and>
           scheduler (example_config\<lparr>scheduler := Some ''cosine''\<rparr>)
             \<notin> {Some ''reduceonplateau'', Some ''warmupinvsqrt''}"
    by simp
  show ?thesis
    using configure_unrecognized_name_raises [OF disjI1 [OF a], of example_schedulers "()"]
      configure_unrecognized_name_raises [OF disjI2 [OF b], of example_schedulers "()"]
    by simp
qed

text \<open>
  C10. \<^verbatim>\<open>configure_optimizers\<close>, of the encoder and of the classifier, calls
  \<^verbatim>\<open>configure\<close> with no argument, and \<^verbatim>\<open>configure\<close> requires one: for every module the call
  raises TypeError, and no bundle is returned.
\<close>

theorem configure_optimizers_raises_TypeError:
  "UDTubeEncoder_configure_optimizers S enc = Inl TypeError
   \<and> UDTubeClassifier_configure_optimizers S cls = Inl TypeError"
  by (simp add: UDTubeEncoder_configure_optimizers_def
      UDTubeClassifier_configure_optimizers_def call_configure_def)

section \<open>The encoder: truncation\<close>

text \<open>
  C1. The claim is that an overlong batch is cut on the sequence axis: every sentence
  kept, each reduced to its first max-length subwords (\<open>truncate_columns\<close>), and that no
  exception is raised. The code takes \<^verbatim>\<open>actual_length\<close> from the second axis and logs the
  warning, but its slices \<^verbatim>\<open>[:max_length]\<close> act on the first axis, the batch. With one
  sentence of three subwords and a maximum of 2, the batch that \<^verbatim>\<open>forward\<close> prepares for
  the encoder still has all three positions of the token ids and of the mask; with
  three such sentences it has the first two sentences, each still of three positions,
  and the third sentence is dropped. The arguments of the encoder call then read
  \<^verbatim>\<open>self.device\<close>, which raises AttributeError, so the encoder is not reached.
\<close>

theorem forward_slices_batch_axis:
  "forward_truncate example_encoder example_tokens = ([Warning_truncating 3 2], example_tokens)
   \<and> input_ids (snd (forward_truncate example_encoder example_tokens)) =
       \<lparr>it_cols = 3, it_rows = [[5, 6, 7]]\<rparr>
   \<and> attention_mask (snd (forward_truncate example_encoder example_tokens)) =
       \<lparr>it_cols = 3, it_rows = [[1, 1, 1]]\<rparr>
   \<and> truncate_columns 2 (input_ids example_tokens) = \<lparr>it_cols = 2, it_rows = [[5, 6]]\<rparr>
   \<and> truncate_columns 2 (attention_mask example_tokens) = \<lparr>it_cols = 2, it_rows = [[1, 1]]\<rparr>
   \<and> input_ids (snd (forward_truncate example_encoder example_tokens3)) =
       \<lparr>it_cols = 3, it_rows = [[5, 6, 7], [8, 9, 10]]\<rparr>
   \<and> attention_mask (snd (forward_truncate example_encoder example_tokens3)) =
       \<lparr>it_cols = 3, it_rows = [[1, 1, 1], [1, 1, 1]]\<rparr>
   \<and> forward_encoder_call Pair example_encoder example_tokens =
       ([Warning_truncating 3 2], example_tokens, Inl AttributeError)"
  by (simp add: forward_encoder_call_def forward_truncate_def example_encoder_def
      example_tokens_def example_tokens3_def slice_rows_def slice_to_def truncate_columns_def
      UDTubeEncoder_device_def bind_e_def)

section \<open>The classification heads\<close>

lemma permute_021_involution:
  assumes "wf3 t"
  shows "permute_021 (permute_021 t) = t"
proof -
  have "map (\<lambda>j. map (\<lambda>r. r ! j) (map (\<lambda>j'. map (\<lambda>r. r ! j') m) [0..<t3_dim2 t])) [0..<t3_dim1 t] = m"
    if m: "length m = t3_dim1 t" "list_all (\<lambda>r. length r = t3_dim2 t) m" for m
  proof (rule nth_equalityI)
    show "length (map (\<lambda>j. map (\<lambda>r. r ! j) (map (\<lambda>j'. map (\<lambda>r. r ! j') m) [0..<t3_dim2 t])) [0..<t3_dim1 t]) = length m"
      using m by simp
  next
    fix i assume "i < length (map (\<lambda>j. map (\<lambda>r. r ! j) (map (\<lambda>j'. map (\<lambda>r. r ! j') m) [0..<t3_dim2 t])) [0..<t3_dim1 t])"
    then have i: "i < length m" using m by simp
    then have len: "length (m ! i) = t3_dim2 t"
      using m(2) by (simp add: list_all_length)
    have "map (\<lambda>r. r ! i) (map (\<lambda>j'. map (\<lambda>r. r ! j') m) [0..<t3_dim2 t]) = map (\<lambda>j'. m ! i ! j') [0..<t3_dim2 t]"
      using i by simp
    also have "\<dots> = m ! i"
      using len map_nth [of "m ! i"] by simp
    finally show "map (\<lambda>j. map (\<lambda>r. r ! j) (map (\<lambda>j'. map (\<lambda>r. r ! j') m) [0..<t3_dim2 t])) [0..<t3_dim1 t] ! i = m ! i"
      using i m by simp
  qed
  note inner = this
  have "map ((\<lambda>m. map (\<lambda>j. map (\<lambda>r. r ! j) m) [0..<t3_dim1 t]) \<circ>
             (\<lambda>m. map (\<lambda>j. map (\<lambda>r. r ! j) m) [0..<t3_dim2 t])) (t3_items t) = t3_items t"
  proof (rule map_idI)
    fix m assume "m \<in> set (t3_items t)"
    then have "length m = t3_dim1 t" "list_all (\<lambda>r. length r = t3_dim2 t) m"
      using assms by (auto simp: wf3_def list_all_iff)
    then show "((\<lambda>m. map (\<lambda>j. map (\<lambda>r. r ! j) m) [0..<t3_dim1 t]) \<circ>
             (\<lambda>m. map (\<lambda>j. map (\<lambda>r. r ! j) m) [0..<t3_dim2 t])) m = m"
      by (simp only: o_apply) (rule inner)
  qed
  then have "t3_items (permute_021 (permute_021 t)) = t3_items t"
    by (simp only: permute_021_def tensor3.simps map_map)
  moreover have "t3_dim1 (permute_021 (permute_021 t)) = t3_dim1 t"
    "t3_dim2 (permute_021 (permute_021 t)) = t3_dim2 t"
    by (simp_all add: permute_021_def)
  ultimately show ?thesis
    by (simp add: tensor3.equality)
qed

lemma wf3_head_forward:
  assumes "wf3 x" "head_forward h x = Inr y"
  shows "wf3 y \<and> shape3 y = (length (t3_items x), t3_dim1 x, out_features h)"
  using assms
  by (auto simp: head_forward_def Linear_forward_def LeakyReLU_forward_def bind_e_def wf3_def shape3_def
      linear_row_def list_all_iff split: if_splits)

lemma head_logits_cases:
  "head_logits (head \<noteq> None) head x = Inr r \<Longrightarrow> (r \<noteq> None) = (head \<noteq> None)"
  by (auto simp: head_logits_def bind_e_def split: option.splits sum.splits if_splits)

lemma forward_Inr:
  "UDTubeClassifier_forward self x = Inr lg \<Longrightarrow>
     head_logits (upos_head self \<noteq> None) (upos_head self) x = Inr (logits_upos lg) \<and>
     head_logits (xpos_head self \<noteq> None) (xpos_head self) x = Inr (logits_xpos lg) \<and>
     head_logits (lemma_head self \<noteq> None) (lemma_head self) x = Inr (logits_lemma lg) \<and>
     head_logits (feats_head self \<noteq> None) (feats_head self) x = Inr (logits_feats lg)"
  by (auto simp: UDTubeClassifier_forward_def bind_e_def use_upos_def use_xpos_def use_lemma_def use_feats_def split: sum.splits)

text \<open>
  What the forward pass does with a classifier whose heads are there: a slot of the
  bundle holds a tensor exactly when the head of its task is not None, and the tensor
  of a head is the head's output with its last two axes exchanged, element for element.
\<close>

lemma forward_slot_iff_head:
  assumes "UDTubeClassifier_forward self x = Inr lg"
  shows "(logits_upos lg \<noteq> None) = (upos_head self \<noteq> None) \<and>
         (logits_xpos lg \<noteq> None) = (xpos_head self \<noteq> None) \<and>
         (logits_lemma lg \<noteq> None) = (lemma_head self \<noteq> None) \<and>
         (logits_feats lg \<noteq> None) = (feats_head self \<noteq> None)"
  using forward_Inr [OF assms] head_logits_cases by metis

lemma permute_021_nth:
  assumes "wf3 t" and "b < length (t3_items t)" and "c < t3_dim2 t" and "w < t3_dim1 t"
  shows "t3_items (permute_021 t) ! b ! c ! w = t3_items t ! b ! w ! c"
proof -
  have "length (t3_items t ! b) = t3_dim1 t"
    using assms(1,2) by (simp add: wf3_def list_all_length)
  then show ?thesis
    using assms(2,3,4) by (simp add: permute_021_def)
qed

lemma head_logits_Some:
  assumes "wf3 x" and "head_logits True (Some h) x = Inr r"
  shows "\<exists>t y. r = Some t \<and> head_forward h x = Inr y \<and> wf3 y \<and>
           shape3 y = (length (t3_items x), t3_dim1 x, out_features h) \<and>
           shape3 t = (length (t3_items x), out_features h, t3_dim1 x) \<and>
           (\<forall>b c w. b < length (t3_items x) \<and> c < out_features h \<and> w < t3_dim1 x \<longrightarrow>
              t3_items t ! b ! c ! w = t3_items y ! b ! w ! c) \<and>
           permute_021 t = y"
proof -
  from assms(2) obtain y where y: "head_forward h x = Inr y" and r: "r = Some (permute_021 y)"
    by (auto simp: head_logits_def bind_e_def split: sum.splits)
  from wf3_head_forward [OF assms(1) y] have wf: "wf3 y"
    and sh: "shape3 y = (length (t3_items x), t3_dim1 x, out_features h)" by simp_all
  have sht: "shape3 (permute_021 y) = (length (t3_items x), out_features h, t3_dim1 x)"
    using sh by (simp add: shape3_def permute_021_def)
  have el: "t3_items (permute_021 y) ! b ! c ! w = t3_items y ! b ! w ! c"
    if "b < length (t3_items x) \<and> c < out_features h \<and> w < t3_dim1 x" for b c w
    using permute_021_nth [OF wf, of b c w] sh that by (simp add: shape3_def)
  from y r wf sh sht el permute_021_involution [OF wf] show ?thesis by simp
qed

lemma init_head_cases:
  "init_head a = (if use a then Inl AttributeError else Inr None)"
  by (simp add: init_head_def make_head_def UDTubeClassifier_hidden_size_def bind_e_def)

text \<open>
  C8. The claim is that each of the four slots of the bundle holds a tensor exactly when
  the head of its task was enabled at construction, and is None otherwise. The forward
  pass does fill a slot exactly when its head is there, but the constructor cannot build
  a head: \<^verbatim>\<open>_make_head\<close> reads \<^verbatim>\<open>self.hidden_size\<close>, which the classifier does not define.
  For all arguments the constructor raises AttributeError when any of the four flags is
  set, and otherwise returns the classifier with no head, whose bundle has four empty
  slots for every input. With the upos flag set and three classes it raises. No bundle
  with a tensor in a slot is produced.
\<close>

theorem classifier_init_raises_when_enabled:
  "UDTubeClassifier_init ua xa la fa oc =
     (if use ua \<or> use xa \<or> use la \<or> use fa then Inl AttributeError
      else Inr \<lparr>upos_head = None, xpos_head = None, lemma_head = None, feats_head = None,
                classifier_optconf = oc\<rparr>)
   \<and> UDTubeClassifier_forward
        \<lparr>upos_head = None, xpos_head = None, lemma_head = None, feats_head = None,
         classifier_optconf = oc\<rparr> embeddings =
       Inr \<lparr>logits_upos = None, logits_xpos = None, logits_lemma = None, logits_feats = None\<rparr>
   \<and> UDTubeClassifier_init example_head_on example_head_off example_head_off example_head_off
        example_config = Inl AttributeError"
  by (simp add: UDTubeClassifier_init_def init_head_cases bind_e_def
      UDTubeClassifier_forward_def head_logits_def use_upos_def use_xpos_def use_lemma_def
      use_feats_def example_head_on_def example_head_off_def)

text \<open>
  C9. The claim is that the tensor stored for an enabled head has the shape
  (batch, declared class count, words) and is the head's output with its last two axes
  exchanged. Constructing the classifier with the flag of a task set and calling it on
  word embeddings produces no bundle: for each of the four tasks, and for every other
  argument and every input, the constructor raises AttributeError where \<^verbatim>\<open>_make_head\<close>
  reads \<^verbatim>\<open>self.hidden_size\<close>, before any head is applied; so it does with the upos
  head enabled for three classes and the embeddings of one sentence of two words.
\<close>

theorem enabled_head_produces_no_logits:
  "bind_e (UDTubeClassifier_init (ua\<lparr>use := True\<rparr>) xa la fa oc)
      (\<lambda>self. UDTubeClassifier_forward self embeddings) = Inl AttributeError
   \<and> bind_e (UDTubeClassifier_init ua (xa\<lparr>use := True\<rparr>) la fa oc)
      (\<lambda>self. UDTubeClassifier_forward self embeddings) = Inl AttributeError
   \<and> bind_e (UDTubeClassifier_init ua xa (la\<lparr>use := True\<rparr>) fa oc)
      (\<lambda>self. UDTubeClassifier_forward self embeddings) = Inl AttributeError
   \<and> bind_e (UDTubeClassifier_init ua xa la (fa\<lparr>use := True\<rparr>) oc)
      (\<lambda>self. UDTubeClassifier_forward self embeddings) = Inl AttributeError
   \<and> bind_e
        (UDTubeClassifier_init example_head_on example_head_off example_head_off
           example_head_off example_config)
        (\<lambda>self. UDTubeClassifier_forward self example_word_embeddings) = Inl AttributeError"
  by (simp add: UDTubeClassifier_init_def init_head_cases bind_e_def example_head_on_def)

section \<open>The Embedding Aggregator\<close>

lemma scan_words_zero:
  assumes "word_ids enc = [] \<or> (\<exists>ws. word_ids enc = None # ws)"
  shows "scan_words enc 0 [] = Some (Inr [])"
  using assms by (subst scan_words.simps) auto

lemma sentence_embedding_zero:
  assumes "word_ids enc = [] \<or> (\<exists>ws. word_ids enc = None # ws)"
  shows "sentence_embedding enc emb = Some (Inl RuntimeError)"
  by (simp add: sentence_embedding_def scan_words_zero [OF assms] bind_e_def torch_stack1_def)

lemma new_sentence_embeddings_nth:
  "new_sentence_embeddings xs = Some (Inr new) \<Longrightarrow>
     length new = length xs \<and>
     (\<forall>b < length xs. sentence_embedding (fst (xs ! b)) (snd (xs ! b)) = Some (Inr (new ! b)))"
proof (induction xs arbitrary: new)
  case Nil
  then show ?case by simp
next
  case (Cons x xs)
  obtain enc emb where x: "x = (enc, emb)" by (cases x)
  from Cons.prems obtain s ss where s: "sentence_embedding enc emb = Some (Inr s)"
    and ss: "new_sentence_embeddings xs = Some (Inr ss)" and new: "new = s # ss"
    by (auto simp: x split: option.splits sum.splits)
  from Cons.IH [OF ss] s new x show ?case
    by (auto simp: nth_Cons split: nat.splits)
qed

lemma sentence_spansD:
  assumes "sentence_spans enc sp" and "k < length sp"
  shows "word_to_tokens enc k = Some (sp ! k) \<and>
      fst (sp ! k) = span_start sp k \<and> fst (sp ! k) < snd (sp ! k) \<and>
      snd (sp ! k) \<le> length (word_ids enc) \<and>
      (\<forall>i\<in>set [fst (sp ! k)..<snd (sp ! k)]. word_ids enc ! i = Some k)"
proof -
  from assms(1) have "\<forall>k\<in>set [0..<length sp]. word_to_tokens enc k = Some (sp ! k) \<and>
      fst (sp ! k) = span_start sp k \<and> fst (sp ! k) < snd (sp ! k) \<and>
      snd (sp ! k) \<le> length (word_ids enc) \<and>
      (\<forall>i\<in>set [fst (sp ! k)..<snd (sp ! k)]. word_ids enc ! i = Some k)"
    unfolding sentence_spans_def list_all_iff by (rule conjunct1)
  moreover have "k \<in> set [0..<length sp]" using assms(2) by simp
  ultimately show ?thesis by (rule bspec)
qed

lemma scan_words_spans:
  assumes "sentence_spans enc sp" and "k \<le> length sp"
  shows "scan_words enc (span_start sp k) (take k sp) = Some (Inr sp)"
  using assms(2)
proof (induction "length sp - k" arbitrary: k)
  case 0
  then have k: "k = length sp" by simp
  from assms(1) have "span_start sp (length sp) < length (word_ids enc) \<Longrightarrow>
      word_ids enc ! span_start sp (length sp) = None"
    by (simp add: sentence_spans_def split: if_splits)
  then show ?case
    unfolding k by (subst scan_words.simps) simp
next
  case (Suc n)
  then have k: "k < length sp" by simp
  from sentence_spansD [OF assms(1) k]
  have "word_to_tokens enc k = Some (sp ! k) \<and>
      fst (sp ! k) = span_start sp k \<and> fst (sp ! k) < snd (sp ! k) \<and>
      snd (sp ! k) \<le> length (word_ids enc) \<and>
      (\<forall>i\<in>set [fst (sp ! k)..<snd (sp ! k)]. word_ids enc ! i = Some k)" .
  then have w: "word_to_tokens enc k = Some (sp ! k)"
    and st: "fst (sp ! k) = span_start sp k"
    and ne: "fst (sp ! k) < snd (sp ! k)"
    and le: "snd (sp ! k) \<le> length (word_ids enc)"
    and ids: "\<forall>i\<in>set [fst (sp ! k)..<snd (sp ! k)]. word_ids enc ! i = Some k"
    by simp_all
  from ids ne have id: "word_ids enc ! span_start sp k = Some k"
    by (simp add: st [symmetric])
  have lt: "span_start sp k < length (word_ids enc)"
    using st ne le by simp
  have next_start: "snd (sp ! k) = span_start sp (Suc k)"
    by (simp add: span_start_def)
  have "scan_words enc (span_start sp (Suc k)) (take (Suc k) sp) = Some (Inr sp)"
    using Suc.hyps(1) [of "Suc k"] Suc.hyps(2) k by simp
  then show ?case
    using lt id w k
    by (subst scan_words.simps) (simp add: next_start take_Suc_conv_app_nth)
qed

lemma length_torch_mean_dim0 [simp]: "length (torch_mean_dim0 t) = t2_cols t"
  by (simp add: torch_mean_dim0_def)








lemma sentence_embedding_spans:
  assumes "sentence_spans enc sp" and "sp \<noteq> []"
  shows "sentence_embedding enc emb =
           Some (Inr \<lparr>t2_cols = t2_cols emb,
                      t2_rows = map (\<lambda>(start, end). torch_mean_dim0 (slice2 emb start end)) sp\<rparr>)"
proof -
  have "scan_words enc 0 [] = Some (Inr sp)"
    using scan_words_spans [OF assms(1), of 0] by (simp add: span_start_def)
  moreover obtain p ps where sp: "sp = p # ps" using assms(2) by (cases sp) auto
  ultimately show ?thesis
    by (auto simp: sentence_embedding_def bind_e_def torch_stack1_def slice2_def list_all_iff
        split: prod.splits)
qed

lemma sentence_embedding_wf:
  assumes "sentence_embedding enc emb = Some (Inr M)"
  shows "wf2 M \<and> t2_cols M = t2_cols emb \<and> t2_rows M \<noteq> []"
proof -
  from assms obtain indices where
    st: "torch_stack1 (map (\<lambda>(start, end). torch_mean_dim0 (slice2 emb start end)) indices) = Inr M"
    by (auto simp: sentence_embedding_def bind_e_def split: option.splits sum.splits)
  then obtain p ps where ind: "indices = p # ps"
    by (cases indices) (auto simp: torch_stack1_def)
  from st show ?thesis
    unfolding ind
    by (auto simp: torch_stack1_def wf2_def slice2_def list_all_iff split: if_splits prod.splits)
qed

lemma py_max_ok: "xs \<noteq> [] \<Longrightarrow> py_max xs = Inr (Max (set xs))"
  by (cases xs) (simp_all add: py_max_def Max.set_eq_fold [symmetric])

lemma padded_row:
  assumes "wf2 s" and "p < length (t2_rows s) + k"
  shows "map (\<lambda>r. r ! p) (t2_rows (pad (tensor2_T s) k)) =
           (if p < length (t2_rows s) then t2_rows s ! p else replicate (t2_cols s) (Fin 0))"
proof (cases "p < length (t2_rows s)")
  case True
  then have len: "length (t2_rows s ! p) = t2_cols s"
    using assms(1) by (simp add: wf2_def list_all_length)
  have "map (\<lambda>r. r ! p) (t2_rows (pad (tensor2_T s) k)) = map ((!) (t2_rows s ! p)) [0..<t2_cols s]"
    using True by (simp add: pad_def tensor2_T_def nth_append)
  also have "\<dots> = t2_rows s ! p"
    using map_nth [of "t2_rows s ! p"] len by simp
  finally show ?thesis using True by simp
next
  case False
  then have "map (\<lambda>r. r ! p) (t2_rows (pad (tensor2_T s) k)) = map (\<lambda>j. Fin 0) [0..<t2_cols s]"
    using assms(2) by (simp add: pad_def tensor2_T_def nth_append)
  then show ?thesis using False by (simp add: map_replicate_trivial)
qed

lemma pad_and_stack_ok:
  assumes ne: "new \<noteq> []"
    and wf: "\<forall>s\<in>set new. wf2 s \<and> t2_cols s = H"
  shows "\<exists>R. pad_and_stack new = Inr R \<and>
           shape3 R = (length new, Max (set (map (\<lambda>s. length (t2_rows s)) new)), H) \<and>
           wf3 R \<and>
           (\<forall>b < length new. \<forall>p < Max (set (map (\<lambda>s. length (t2_rows s)) new)).
              t3_items R ! b ! p =
                (if p < length (t2_rows (new ! b)) then t2_rows (new ! b) ! p
                 else replicate H (Fin 0)))"
proof -
  let ?pm = "Max (set (map (\<lambda>s. length (t2_rows s)) new))"
  let ?padded = "map (\<lambda>s. pad (tensor2_T s) (?pm - length (t2_rows s))) new"
  have le: "length (t2_rows s) \<le> ?pm" if "s \<in> set new" for s
    using that by (intro Max_ge) auto
  have mx: "py_max (map (\<lambda>s. length (t2_rows s)) new) = Inr ?pm"
    using ne by (simp add: py_max_ok)
  obtain s0 rest where new: "new = s0 # rest" using ne by (cases new) auto
  have shape: "length (t2_rows (pad (tensor2_T s) (?pm - length (t2_rows s)))) = H \<and>
               t2_cols (pad (tensor2_T s) (?pm - length (t2_rows s))) = ?pm"
    if "s \<in> set new" for s
    using wf le [OF that] that by (simp add: pad_def tensor2_T_def)
  have st: "torch_stack2 ?padded =
      Inr \<lparr>t3_dim1 = H, t3_dim2 = ?pm, t3_items = map t2_rows ?padded\<rparr>"
  proof -
    have "list_all (\<lambda>u. length (t2_rows u) = H \<and> t2_cols u = ?pm) ?padded"
      using shape by (simp add: list_all_iff)
    then show ?thesis
      unfolding new by (simp add: torch_stack2_def list_all_iff)
  qed
  let ?R = "permute_021 \<lparr>t3_dim1 = H, t3_dim2 = ?pm, t3_items = map t2_rows ?padded\<rparr>"
  have res: "pad_and_stack new = Inr ?R"
    by (simp only: pad_and_stack_def mx bind_e_def sum.case st)
  have sh: "shape3 ?R = (length new, ?pm, H)"
    by (simp add: shape3_def permute_021_def)
  have row: "t3_items ?R ! b ! p =
      (if p < length (t2_rows (new ! b)) then t2_rows (new ! b) ! p else replicate H (Fin 0))"
    if b: "b < length new" and p: "p < ?pm" for b p
  proof -
    have mem: "new ! b \<in> set new" using b by simp
    have "t3_items ?R ! b ! p =
        map (\<lambda>r. r ! p) (t2_rows (pad (tensor2_T (new ! b)) (?pm - length (t2_rows (new ! b)))))"
      using b p by (simp add: permute_021_def)
    also have "\<dots> = (if p < length (t2_rows (new ! b)) then t2_rows (new ! b) ! p
                     else replicate (t2_cols (new ! b)) (Fin 0))"
      using wf mem p le [OF mem] by (intro padded_row) auto
    finally show ?thesis using wf mem by simp
  qed
  have wfR: "wf3 ?R"
    using wf by (auto simp: wf3_def permute_021_def list_all_iff pad_def tensor2_T_def)
  from res sh row wfR show ?thesis by blast
qed

lemma example_sentence3_spans: "sentence_spans example_sentence3 [(0, 1), (1, 3), (3, 4)]"
  by (simp add: sentence_spans_def example_sentence3_def span_start_def upt_conv_Cons)

lemma example_sentence5_spans: "sentence_spans example_sentence5 [(0, 1), (1, 2), (2, 4), (4, 5), (5, 6)]"
  by (simp add: sentence_spans_def example_sentence5_def span_start_def upt_conv_Cons)

lemma example_group_embeddings: "group_embeddings example_embeddings example_batch = Some (Inr
   \<lparr>t3_dim1 = 5, t3_dim2 = 2, t3_items =
      [[[Fin 1, Fin 0], [Fin 3, Fin 4], [Fin 5, Fin 1], [Fin 0, Fin 0], [Fin 0, Fin 0]],
       [[Fin 1, Fin 1], [Fin 2, Fin 2], [Fin 4, Fin 5], [Fin 8, Fin 8], [Fin 9, Fin 9]]]\<rparr>)"
  by (simp add: group_embeddings_def example_batch_def example_embeddings_def unbind3_def
     sentence_embedding_def scan_words.simps example_sentence3_def example_sentence5_def
     bind_e_def torch_stack1_def torch_mean_dim0_def slice2_def example_rows3_def example_rows5_def
     fp_sum_def pad_and_stack_def py_max_def torch_stack2_def pad_def tensor2_T_def permute_021_def
     upt_conv_Cons)

lemma new_sentence_embeddings_spans:
  assumes "list_all2 (\<lambda>enc sp. sentence_spans enc sp \<and> sp \<noteq> []) encs sps"
    and "length embs = length encs"
  shows "new_sentence_embeddings (zip encs embs) =
           Some (Inr (map2 (\<lambda>sp emb. \<lparr>t2_cols = t2_cols emb,
                   t2_rows = map (\<lambda>(start, end). torch_mean_dim0 (slice2 emb start end)) sp\<rparr>)
                 sps embs))"
  using assms
proof (induction encs sps arbitrary: embs rule: list_all2_induct)
  case Nil
  then show ?case by simp
next
  case (Cons enc encs sp sps)
  then obtain emb embs' where embs: "embs = emb # embs'" and len: "length embs' = length encs"
    by (cases embs) auto
  from Cons.hyps(1) have "sentence_embedding enc emb =
           Some (Inr \<lparr>t2_cols = t2_cols emb,
                      t2_rows = map (\<lambda>(start, end). torch_mean_dim0 (slice2 emb start end)) sp\<rparr>)"
    by (intro sentence_embedding_spans) simp_all
  with Cons.IH [OF len] show ?case
    by (simp add: embs)
qed

lemma group_embeddings_pads:
  assumes "new_sentence_embeddings (zip (encodings tokenized) (unbind3 embeddings)) = Some (Inr new)"
    and "new \<noteq> []"
  shows "\<exists>R. group_embeddings embeddings tokenized = Some (Inr R) \<and>
           shape3 R = (length new, Max (set (map (\<lambda>s. length (t2_rows s)) new)),
                       t3_dim2 embeddings) \<and>
           wf3 R \<and>
           (\<forall>b < length new. \<forall>p < Max (set (map (\<lambda>s. length (t2_rows s)) new)).
              t3_items R ! b ! p =
                (if p < length (t2_rows (new ! b)) then t2_rows (new ! b) ! p
                 else replicate (t3_dim2 embeddings) (Fin 0)))"
proof -
  let ?xs = "zip (encodings tokenized) (unbind3 embeddings)"
  from new_sentence_embeddings_nth [OF assms(1)]
  have len: "length new = length ?xs"
    and nth: "\<forall>b < length ?xs. sentence_embedding (fst (?xs ! b)) (snd (?xs ! b)) = Some (Inr (new ! b))"
    by simp_all
  have "\<forall>s\<in>set new. wf2 s \<and> t2_cols s = t3_dim2 embeddings"
  proof
    fix s assume "s \<in> set new"
    then obtain b where b: "b < length new" and s: "s = new ! b"
      by (auto simp: in_set_conv_nth)
    with nth len have se: "sentence_embedding (fst (?xs ! b)) (snd (?xs ! b)) = Some (Inr s)"
      by simp
    have "snd (?xs ! b) = unbind3 embeddings ! b"
      using b len by simp
    moreover have "t2_cols (unbind3 embeddings ! b) = t3_dim2 embeddings"
      using b len by (simp add: unbind3_def)
    ultimately show "wf2 s \<and> t2_cols s = t3_dim2 embeddings"
      using sentence_embedding_wf [OF se] by simp
  qed
  from pad_and_stack_ok [OF assms(2) this] show ?thesis
    by (simp add: group_embeddings_def assms(1) bind_e_def)
qed

text \<open>
  C2, as stated, fails. In a batch of two sentences whose second sentence is all padding
  the loop collects no span for that sentence, \<^verbatim>\<open>torch.stack\<close> is called on an empty
  list and raises RuntimeError: no (0 by hidden size) tensor is produced for the sentence
  and none for the batch.
\<close>

theorem zero_word_sentence_counterexample:
  "sentence_embedding example_padding_only \<lparr>t2_cols = 2, t2_rows = example_rows5\<rparr> =
     Some (Inl RuntimeError)
   \<and> group_embeddings example_embeddings
     (example_batch\<lparr>encodings := [example_sentence3, example_padding_only]\<rparr>) =
     Some (Inl RuntimeError)"
  by (simp add: group_embeddings_def example_batch_def example_embeddings_def unbind3_def
     sentence_embedding_def scan_words.simps example_sentence3_def example_padding_only_def
     bind_e_def torch_stack1_def)

text \<open>
  C2, amended. A sentence with zero real words (its word ids are empty or start with
  None) is not supported: for every batch that holds such a sentence together with its
  embeddings, the step for that sentence raises RuntimeError, and the Embedding
  Aggregator returns no tensor for the batch. A per-sentence tensor is produced only for a
  sentence with at least one real word.
\<close>

theorem zero_word_sentence_raises:
  assumes "b < length (encodings tokenized)" and "b < length (t3_items embeddings)"
    and "word_ids (encodings tokenized ! b) = [] \<or>
         (\<exists>ws. word_ids (encodings tokenized ! b) = None # ws)"
  shows "sentence_embedding (encodings tokenized ! b) (unbind3 embeddings ! b) =
           Some (Inl RuntimeError)
         \<and> (\<forall>R. group_embeddings embeddings tokenized \<noteq> Some (Inr R))"
proof
  show z: "sentence_embedding (encodings tokenized ! b) (unbind3 embeddings ! b) =
           Some (Inl RuntimeError)"
    by (rule sentence_embedding_zero [OF assms(3)])
  show "\<forall>R. group_embeddings embeddings tokenized \<noteq> Some (Inr R)"
  proof (intro allI notI)
    fix R assume "group_embeddings embeddings tokenized = Some (Inr R)"
    then obtain new where
      "new_sentence_embeddings (zip (encodings tokenized) (unbind3 embeddings)) = Some (Inr new)"
      by (auto simp: group_embeddings_def bind_e_def split: option.splits sum.splits)
    from new_sentence_embeddings_nth [OF this] assms(1,2)
    have "sentence_embedding (encodings tokenized ! b) (unbind3 embeddings ! b) =
            Some (Inr (new ! b))"
      by (simp add: unbind3_def)
    with z show False by simp
  qed
qed

theorem zero_word_sentence_raises_witness:
  "sentence_embedding example_padding_only (unbind3 example_embeddings ! 1) =
     Some (Inl RuntimeError)
   \<and> (\<forall>R. group_embeddings example_embeddings
           (example_batch\<lparr>encodings := [example_sentence3, example_padding_only]\<rparr>)
         \<noteq> Some (Inr R))"
proof -
  let ?t = "example_batch\<lparr>encodings := [example_sentence3, example_padding_only]\<rparr>"
  have a: "1 < length (encodings ?t)" by simp
  have b: "1 < length (t3_items example_embeddings)"
    by (simp add: example_embeddings_def)
  have c: "word_ids (encodings ?t ! 1) = [] \<or> (\<exists>ws. word_ids (encodings ?t ! 1) = None # ws)"
    by (simp add: example_padding_only_def)
  from zero_word_sentence_raises [OF a b c] show ?thesis by simp
qed



text \<open>
  C4. For every batch that is not empty, with embeddings for each of its sentences, in
  which each sentence satisfies the tokenizer's contract and has at least one word: the
  Embedding Aggregator returns a tensor of shape (batch, maximum of the word counts,
  hidden size); and for each sentence, the positions below its word count hold the rows
  of its own word embeddings, and the positions from its word count up to the maximum
  hold zero in each of the hidden-size components.
\<close>

theorem group_embeddings_zero_padded:
  assumes "list_all2 (\<lambda>enc sp. sentence_spans enc sp \<and> sp \<noteq> []) (encodings tokenized) sps"
    and "length (t3_items embeddings) = length (encodings tokenized)"
    and "encodings tokenized \<noteq> []"
  shows "\<exists>R. group_embeddings embeddings tokenized = Some (Inr R) \<and>
     shape3 R = (length (encodings tokenized), Max (set (map length sps)), t3_dim2 embeddings) \<and>
     (\<forall>b < length sps.
        \<exists>M. sentence_embedding (encodings tokenized ! b) (unbind3 embeddings ! b) = Some (Inr M) \<and>
            length (t2_rows M) = length (sps ! b) \<and>
            (\<forall>p < Max (set (map length sps)).
               t3_items R ! b ! p =
                 (if p < length (sps ! b) then t2_rows M ! p
                  else replicate (t3_dim2 embeddings) (Fin 0))))"
proof -
  let ?embs = "unbind3 embeddings"
  let ?new = "map2 (\<lambda>sp emb. \<lparr>t2_cols = t2_cols emb,
                   t2_rows = map (\<lambda>(start, end). torch_mean_dim0 (slice2 emb start end)) sp\<rparr>)
                 sps ?embs"
  have n: "length sps = length (encodings tokenized)"
    using assms(1) by (simp add: list_all2_lengthD)
  have le: "length ?embs = length (encodings tokenized)"
    using assms(2) by (simp add: unbind3_def)
  have new: "new_sentence_embeddings (zip (encodings tokenized) ?embs) = Some (Inr ?new)"
    by (rule new_sentence_embeddings_spans [OF assms(1) le])
  have ln: "length ?new = length sps"
    using n le by simp
  have ne: "?new \<noteq> []"
    using ln n assms(3) by (metis length_0_conv)
  have lens: "map (\<lambda>s. length (t2_rows s)) ?new = map length sps"
    using n le by (intro nth_equalityI) auto
  from group_embeddings_pads [OF new ne] obtain R where
    R: "group_embeddings embeddings tokenized = Some (Inr R)"
    and sh: "shape3 R = (length sps, Max (set (map length sps)), t3_dim2 embeddings)"
    and rows: "\<forall>b < length sps. \<forall>p < Max (set (map length sps)).
              t3_items R ! b ! p =
                (if p < length (t2_rows (?new ! b)) then t2_rows (?new ! b) ! p
                 else replicate (t3_dim2 embeddings) (Fin 0))"
    unfolding lens ln by blast
  have "\<exists>M. sentence_embedding (encodings tokenized ! b) (?embs ! b) = Some (Inr M) \<and>
            length (t2_rows M) = length (sps ! b) \<and>
            (\<forall>p < Max (set (map length sps)).
               t3_items R ! b ! p =
                 (if p < length (sps ! b) then t2_rows M ! p
                  else replicate (t3_dim2 embeddings) (Fin 0)))"
    if b: "b < length sps" for b
  proof -
    from new_sentence_embeddings_nth [OF new] b n le
    have "sentence_embedding (encodings tokenized ! b) (?embs ! b) = Some (Inr (?new ! b))"
      by simp
    moreover have "length (t2_rows (?new ! b)) = length (sps ! b)"
      using b n le by simp
    ultimately show ?thesis
      using rows b by (intro exI [of _ "?new ! b"]) simp
  qed
  with R sh n show ?thesis by auto
qed

theorem group_embeddings_zero_padded_witness:
  "\<exists>R. group_embeddings example_embeddings example_batch = Some (Inr R) \<and>
       shape3 R = (2, 5, 2) \<and>
       t3_items R ! 0 ! 3 = [Fin 0, Fin 0] \<and> t3_items R ! 0 ! 4 = [Fin 0, Fin 0]"
proof -
  let ?sps = "[[(0, 1), (1, 3), (3, 4)], [(0, 1), (1, 2), (2, 4), (4, 5), (5, 6)]] :: (nat \<times> nat) list list"
  have a: "list_all2 (\<lambda>enc sp. sentence_spans enc sp \<and> sp \<noteq> []) (encodings example_batch) ?sps"
    using example_sentence3_spans example_sentence5_spans by (simp add: example_batch_def)
  have b: "length (t3_items example_embeddings) = length (encodings example_batch)"
    by (simp add: example_batch_def example_embeddings_def)
  have c: "encodings example_batch \<noteq> []"
    by (simp add: example_batch_def)
  have mx: "Max (set (map length ?sps)) = 5" by simp
  from group_embeddings_zero_padded [OF a b c] obtain R where
    R: "group_embeddings example_embeddings example_batch = Some (Inr R)"
    and sh: "shape3 R = (length (encodings example_batch), 5, t3_dim2 example_embeddings)"
    and rows: "\<forall>b < length ?sps.
        \<exists>M. sentence_embedding (encodings example_batch ! b) (unbind3 example_embeddings ! b) = Some (Inr M) \<and>
            length (t2_rows M) = length (?sps ! b) \<and>
            (\<forall>p < 5.
               t3_items R ! b ! p =
                 (if p < length (?sps ! b) then t2_rows M ! p
                  else replicate (t3_dim2 example_embeddings) (Fin 0)))"
    unfolding mx by blast
  from rows have "\<forall>p < 5. 3 \<le> p \<longrightarrow> t3_items R ! 0 ! p = replicate (t3_dim2 example_embeddings) (Fin 0)"
    by fastforce
  then have "t3_items R ! 0 ! 3 = [Fin 0, Fin 0]" "t3_items R ! 0 ! 4 = [Fin 0, Fin 0]"
    by (simp_all add: example_embeddings_def eval_nat_numeral)
  with R sh show ?thesis
    by (simp add: example_batch_def example_embeddings_def)
qed

end
